theory Spec2Isabelle
  imports Complex_Main "HOL-Library.Log_Nat"
begin

section \<open>Python dictionaries\<close>

text \<open>
  A Python \<open>dict\<close> keeps its keys unique and iterates in insertion order. It is modelled as an
  association list: \<open>d[k] = v\<close> replaces the value in place when the key is present and
  appends the entry otherwise; \<open>del d[k]\<close> removes the entry of the key; \<open>k in d\<close> is
  \<open>map_of d k \<noteq> None\<close>; \<open>len(d)\<close> is the length of the list.
\<close>

fun dict_set :: "('k \<times> 'v) list \<Rightarrow> 'k \<Rightarrow> 'v \<Rightarrow> ('k \<times> 'v) list" where
  "dict_set [] k v = [(k, v)]"
| "dict_set ((k', v') # kvs) k v =
     (if k' = k then (k, v) # kvs else (k', v') # dict_set kvs k v)"

definition dict_del :: "('k \<times> 'v) list \<Rightarrow> 'k \<Rightarrow> ('k \<times> 'v) list" where
  "dict_del kvs k = filter (\<lambda>kv. fst kv \<noteq> k) kvs"

section \<open>Python floats\<close>

text \<open>
  A Python \<open>float\<close> is an IEEE 754 binary64 number: a finite value, one of the two
  infinities, or NaN. A finite value is given by the rational it denotes; the two zeros are
  one value, since nothing below divides or reads a sign. Every arithmetic operation
  computes the exact result and rounds it to the nearest representable number, ties to the
  even significand. \<open>+\<close>, \<open>-\<close>, \<open>*\<close> and the comparisons of floats never raise: an
  overflow gives an infinity, and every comparison with NaN is false.

  \<open>pow2 k\<close> is 2 to the power \<open>k\<close>. \<open>float_exponent a\<close> is the exponent of the binade of a
  positive \<open>a\<close>, the \<open>e\<close> with \<open>pow2 e \<le> a < pow2 (e + 1)\<close> (lemma \<open>float_exponent_bounds\<close>).
  The spacing of the doubles in that binade is \<open>pow2 (e - 52)\<close>, and below \<open>pow2 (- 1022)\<close>
  it stays \<open>pow2 (- 1074)\<close> (the subnormal numbers). A rounded magnitude of \<open>pow2 1024\<close> or
  more is an overflow.
\<close>

datatype pyfloat = Fl rat | PInf | NInf | NaN

definition pow2 :: "int \<Rightarrow> rat" where
  "pow2 k = (if 0 \<le> k then 2 ^ nat k else 1 / 2 ^ nat (- k))"

definition float_exponent :: "rat \<Rightarrow> int" where
  "float_exponent a =
     (if 1 \<le> a then bitlen \<lfloor>a\<rfloor> - 1 else - bitlen (\<lceil>1 / a\<rceil> - 1))"

definition round_half_even :: "rat \<Rightarrow> int" where
  "round_half_even y =
     (let f = \<lfloor>y\<rfloor>; d = y - of_int f
      in if d < 1 / 2 then f else if 1 / 2 < d then f + 1 else if even f then f else f + 1)"

definition round_double :: "rat \<Rightarrow> pyfloat" where
  "round_double x =
     (if x = 0 then Fl 0
      else
        let a = \<bar>x\<bar>;
            e = max (float_exponent a) (- 1022);
            q = pow2 (e - 52);
            r = of_int (round_half_even (a / q)) * q
        in if pow2 1024 \<le> r then (if 0 < x then PInf else NInf)
           else Fl (if 0 < x then r else - r))"

fun fneg :: "pyfloat \<Rightarrow> pyfloat" where
  "fneg (Fl x) = Fl (- x)"
| "fneg PInf = NInf"
| "fneg NInf = PInf"
| "fneg NaN = NaN"

fun fadd :: "pyfloat \<Rightarrow> pyfloat \<Rightarrow> pyfloat" where
  "fadd NaN b = NaN"
| "fadd a NaN = NaN"
| "fadd (Fl x) (Fl y) = round_double (x + y)"
| "fadd PInf NInf = NaN"
| "fadd NInf PInf = NaN"
| "fadd PInf b = PInf"
| "fadd a PInf = PInf"
| "fadd NInf b = NInf"
| "fadd a NInf = NInf"

definition fsub :: "pyfloat \<Rightarrow> pyfloat \<Rightarrow> pyfloat" where
  "fsub a b = fadd a (fneg b)"

fun fmul :: "pyfloat \<Rightarrow> pyfloat \<Rightarrow> pyfloat" where
  "fmul NaN b = NaN"
| "fmul a NaN = NaN"
| "fmul (Fl x) (Fl y) = round_double (x * y)"
| "fmul (Fl x) PInf = (if x = 0 then NaN else if 0 < x then PInf else NInf)"
| "fmul (Fl x) NInf = (if x = 0 then NaN else if 0 < x then NInf else PInf)"
| "fmul PInf (Fl y) = (if y = 0 then NaN else if 0 < y then PInf else NInf)"
| "fmul NInf (Fl y) = (if y = 0 then NaN else if 0 < y then NInf else PInf)"
| "fmul PInf PInf = PInf"
| "fmul PInf NInf = NInf"
| "fmul NInf PInf = NInf"
| "fmul NInf NInf = PInf"

text \<open>\<open>flt a b\<close> is \<open>a < b\<close>, \<open>fle a b\<close> is \<open>a <= b\<close>, \<open>fgt a b\<close> is \<open>a > b\<close>, \<open>fge a b\<close> is \<open>a >= b\<close>.\<close>

fun flt :: "pyfloat \<Rightarrow> pyfloat \<Rightarrow> bool" where
  "flt NaN b = False"
| "flt a NaN = False"
| "flt (Fl x) (Fl y) = (x < y)"
| "flt NInf NInf = False"
| "flt NInf b = True"
| "flt a NInf = False"
| "flt PInf b = False"
| "flt a PInf = True"

definition fle :: "pyfloat \<Rightarrow> pyfloat \<Rightarrow> bool" where
  "fle a b \<longleftrightarrow> flt a b \<or> (a = b \<and> a \<noteq> NaN)"

definition fgt :: "pyfloat \<Rightarrow> pyfloat \<Rightarrow> bool" where
  "fgt a b = flt b a"

definition fge :: "pyfloat \<Rightarrow> pyfloat \<Rightarrow> bool" where
  "fge a b = fle b a"

section \<open>The position ledger: \<open>src/core/position_manager.py\<close>\<close>

text \<open>
  Prices, sizes and exposures are annotated \<open>float\<close> in the source and are floats here.
  \<open>entry_time\<close> is only written by the constructor and read by \<open>get_positions\<close>; it is left
  out. The direction stays a string, as in the source, which compares it with \<open>"long"\<close> and
  \<open>"short"\<close> and accepts any other value.
\<close>

record position =
  symbol :: string
  size_p :: pyfloat
  entry_price :: pyfloat
  direction :: string
  stop_loss :: "pyfloat option"
  take_profit :: "pyfloat option"
  pnl :: pyfloat
  status :: string

definition Position_init ::
  "string \<Rightarrow> pyfloat \<Rightarrow> pyfloat \<Rightarrow> string \<Rightarrow> pyfloat option \<Rightarrow> pyfloat option
     \<Rightarrow> position" where
  "Position_init symb sz ep dir sl tp =
     \<lparr>symbol = symb, size_p = sz, entry_price = ep, direction = dir,
      stop_loss = sl, take_profit = tp, pnl = Fl 0, status = ''open''\<rparr>"

text \<open>
  \<open>Position.update\<close>: the multiplier is the integer 1 for \<open>"long"\<close> and -1 for anything else;
  the product with a float converts it to the float of the same value.
\<close>

definition position_update :: "position \<Rightarrow> pyfloat \<Rightarrow> position" where
  "position_update p current_price =
     (let multiplier = (if direction p = ''long'' then Fl 1 else Fl (- 1))
      in p\<lparr>pnl := fmul (fmul (fsub current_price (entry_price p)) (size_p p)) multiplier\<rparr>)"

record position_manager =
  positions :: "(string \<times> position) list"
  max_positions :: nat
  total_exposure :: pyfloat
  max_exposure :: pyfloat

definition PositionManager_init :: position_manager where
  "PositionManager_init =
     \<lparr>positions = [], max_positions = 10, total_exposure = Fl 0, max_exposure = Fl 100000\<rparr>"

text \<open>
  \<open>open_position\<close> returns its boolean together with the manager after the call. With float
  arguments nothing in the body of the \<open>try\<close> raises, so the \<open>except\<close> branch is not
  reached.
\<close>

definition open_position ::
  "position_manager \<Rightarrow> string \<Rightarrow> pyfloat \<Rightarrow> pyfloat \<Rightarrow> string \<Rightarrow> pyfloat option
     \<Rightarrow> pyfloat option \<Rightarrow> bool \<times> position_manager" where
  "open_position pm symb sz ep dir sl tp =
     (if length (positions pm) \<ge> max_positions pm then (False, pm)
      else
        let new_exposure = fmul sz ep in
        if fgt (fadd (total_exposure pm) new_exposure) (max_exposure pm) then (False, pm)
        else
          let position = Position_init symb sz ep dir sl tp in
          (True, pm\<lparr>positions := dict_set (positions pm) symb position,
                    total_exposure := fadd (total_exposure pm) new_exposure\<rparr>))"

text \<open>
  \<open>close_position\<close> mutates the \<open>Position\<close> object (pnl, status) and then deletes it from the
  dictionary. The object stays visible to whoever still holds a reference to it, so the
  model returns it as a third component: \<open>None\<close> when no position was found.
\<close>

definition close_position ::
  "position_manager \<Rightarrow> string \<Rightarrow> pyfloat
     \<Rightarrow> bool \<times> position_manager \<times> position option" where
  "close_position pm symb exit_price =
     (case map_of (positions pm) symb of
        None \<Rightarrow> (False, pm, None)
      | Some position \<Rightarrow>
          let position = position_update position exit_price;
              exposure =
                fsub (total_exposure pm) (fmul (size_p position) (entry_price position));
              position = position\<lparr>status := ''closed''\<rparr>
          in (True,
              pm\<lparr>positions := dict_del (positions pm) symb, total_exposure := exposure\<rparr>,
              Some position))"

text \<open>
  The exit conditions of \<open>update_positions\<close>, in the order of the \<open>if\<close>/\<open>elif\<close> chain. An
  optional level is tested for truth first: \<open>None\<close> and a zero are false in Python, every
  other float, NaN included, is true.
\<close>

definition truthy :: "pyfloat option \<Rightarrow> bool" where
  "truthy v = (case v of None \<Rightarrow> False | Some x \<Rightarrow> x \<noteq> Fl 0)"

datatype exit_branch = StopLossLong | StopLossShort | TakeProfitLong | TakeProfitShort

definition exit_check :: "position \<Rightarrow> pyfloat \<Rightarrow> exit_branch option" where
  "exit_check p price =
     (if truthy (stop_loss p) \<and> direction p = ''long'' \<and> fle price (the (stop_loss p))
        then Some StopLossLong
      else if truthy (stop_loss p) \<and> direction p = ''short'' \<and> fge price (the (stop_loss p))
        then Some StopLossShort
      else if truthy (take_profit p) \<and> direction p = ''long''
              \<and> fge price (the (take_profit p))
        then Some TakeProfitLong
      else if truthy (take_profit p) \<and> direction p = ''short''
              \<and> fle price (the (take_profit p))
        then Some TakeProfitShort
      else None)"

text \<open>
  \<open>update_positions\<close> iterates over \<open>self.positions.items()\<close> and calls \<open>close_position\<close>,
  which deletes from that dictionary, inside the loop. A Python dictionary iterator compares
  the size of the dictionary with the size at the start of the loop each time it is asked
  for the next item, and raises \<open>RuntimeError\<close> when they differ. \<open>update_positions\<close> has no
  \<open>try\<close>, so the error leaves the method; what was mutated before stays mutated.

  \<open>update_loop n pm items prices\<close> is the loop: \<open>n\<close> is the size at the start, \<open>items\<close> the
  entries not yet visited. Each iteration mutates only the object of its own entry, so the
  objects of the remaining entries are still the ones of the start.
\<close>

datatype outcome = Returned | RuntimeError

fun update_loop ::
  "nat \<Rightarrow> position_manager \<Rightarrow> (string \<times> position) list \<Rightarrow> (string \<rightharpoonup> pyfloat)
     \<Rightarrow> outcome \<times> position_manager" where
  "update_loop n pm [] prices =
     (if length (positions pm) \<noteq> n then (RuntimeError, pm) else (Returned, pm))"
| "update_loop n pm ((symb, position) # rest) prices =
     (if length (positions pm) \<noteq> n then (RuntimeError, pm)
      else
        (case prices symb of
           None \<Rightarrow> update_loop n pm rest prices
         | Some price \<Rightarrow>
             (let position = position_update position price;
                  pm = pm\<lparr>positions := dict_set (positions pm) symb position\<rparr>
              in if exit_check position price \<noteq> None
                 then update_loop n (fst (snd (close_position pm symb price))) rest prices
                 else update_loop n pm rest prices)))"

definition update_positions ::
  "position_manager \<Rightarrow> (string \<rightharpoonup> pyfloat) \<Rightarrow> outcome \<times> position_manager" where
  "update_positions pm prices =
     update_loop (length (positions pm)) pm (positions pm) prices"

text \<open>
  The sum of \<open>size * entry_price\<close> over the open positions, added up in floats in the order
  of the dictionary.
\<close>

definition exposure_sum :: "(string \<times> position) list \<Rightarrow> pyfloat" where
  "exposure_sum ps =
     foldl (\<lambda>acc kv. fadd acc (fmul (size_p (snd kv)) (entry_price (snd kv)))) (Fl 0) ps"

section \<open>The metrics collector: \<open>src/core/monitoring.py\<close>\<close>

text \<open>
  A snapshot is whatever \<open>_collect_system_metrics\<close> returned (an empty dictionary when
  sampling failed); its type is a parameter. The alert thresholds and callbacks never touch
  the history, the flag or the tasks and are left out. \<open>loop_tasks\<close> counts the
  \<open>_monitor_loop\<close> tasks that \<open>asyncio.create_task\<close> has scheduled and that have not
  returned yet: the source keeps no handle on them.
\<close>

record 'm system_monitor =
  metrics_history :: "'m list"
  max_history_size :: nat
  monitoring :: bool
  loop_tasks :: nat

definition SystemMonitor_init :: "'m system_monitor" where
  "SystemMonitor_init =
     \<lparr>metrics_history = [], max_history_size = 1000, monitoring = False, loop_tasks = 0\<rparr>"

text \<open>
  \<open>start_monitoring\<close> is a coroutine, so \<open>create_task\<close> always finds a running event loop
  and the \<open>except\<close> branch is not reached.
\<close>

definition start_monitoring :: "'m system_monitor \<Rightarrow> 'm system_monitor" where
  "start_monitoring m = (let m = m\<lparr>monitoring := True\<rparr> in m\<lparr>loop_tasks := loop_tasks m + 1\<rparr>)"

definition stop_monitoring :: "'m system_monitor \<Rightarrow> 'm system_monitor" where
  "stop_monitoring m = m\<lparr>monitoring := False\<rparr>"

text \<open>
  The store step of one tick: \<open>append\<close>, then \<open>pop(0)\<close> when the list has grown past
  \<open>max_history_size\<close>. The list is not empty after the append, so \<open>pop(0)\<close> is \<open>tl\<close>.
\<close>

definition store_metrics :: "'m system_monitor \<Rightarrow> 'm \<Rightarrow> 'm system_monitor" where
  "store_metrics m metrics =
     (let h = metrics_history m @ [metrics]
      in m\<lparr>metrics_history := (if length h > max_history_size m then tl h else h)\<rparr>)"

text \<open>
  One pass of one \<open>_monitor_loop\<close> task through \<open>while self.monitoring\<close>: with the flag set
  it runs a tick on the snapshot it collected, with the flag cleared the task returns.
\<close>

definition monitor_loop_step :: "'m system_monitor \<Rightarrow> 'm \<Rightarrow> 'm system_monitor" where
  "monitor_loop_step m metrics =
     (if monitoring m then store_metrics m metrics else m\<lparr>loop_tasks := loop_tasks m - 1\<rparr>)"

section \<open>The risk calculator: \<open>src/core/risk_metrics.py\<close>\<close>

text \<open>
  \<open>calculate_sharpe_ratio\<close> takes a square root, so its floats are modelled as reals.
  \<open>np.mean\<close> and \<open>np.std\<close> (the population standard deviation) are only reached with at
  least two observations. numpy does not raise on a division by a zero deviation: the result
  is an infinity or NaN, which is \<open>NotFinite\<close> here. Nothing in the body raises on a list of
  numbers, so the \<open>except\<close> branch has no counterpart.
\<close>

datatype np_float = Num real | NotFinite

definition np_mean :: "real list \<Rightarrow> real" where
  "np_mean xs = sum_list xs / real (length xs)"

definition np_std :: "real list \<Rightarrow> real" where
  "np_std xs = sqrt (np_mean (map (\<lambda>x. (x - np_mean xs)\<^sup>2) xs))"

definition calculate_sharpe_ratio :: "real list \<Rightarrow> real \<Rightarrow> np_float" where
  "calculate_sharpe_ratio returns risk_free_rate =
     (let excess_returns = map (\<lambda>r. r - risk_free_rate / 252) returns
      in if length excess_returns < 2 then Num 0
         else if np_std excess_returns = 0 then NotFinite
         else Num (sqrt 252 * (np_mean excess_returns / np_std excess_returns)))"

section \<open>The supervisor: \<open>src/core/master_agent.py\<close>\<close>

text \<open>
  The five agent classes are imported by \<open>master_agent.py\<close> under these names; their modules
  are not part of the sources. \<open>class_name\<close> is \<open>__class__.__name__\<close>.
\<close>

datatype agent_class =
  StrategyAgent | RiskManagementAgent | DeploymentAgent | BacktestingAgent | ResearchAgent

fun class_name :: "agent_class \<Rightarrow> string" where
  "class_name StrategyAgent = ''StrategyAgent''"
| "class_name RiskManagementAgent = ''RiskManagementAgent''"
| "class_name DeploymentAgent = ''DeploymentAgent''"
| "class_name BacktestingAgent = ''BacktestingAgent''"
| "class_name ResearchAgent = ''ResearchAgent''"

text \<open>\<open>str.lower\<close> on ASCII text: the letters A to Z (codes 65 to 90) move up by 32.\<close>

definition lower_char :: "char \<Rightarrow> char" where
  "lower_char c =
     (let n = (of_char c :: nat) in if 65 \<le> n \<and> n \<le> 90 then char_of (n + 32) else c)"

definition lower :: "string \<Rightarrow> string" where
  "lower s = map lower_char s"

text \<open>
  The fields of \<open>BaseAgent\<close> that the supervisor reads. The configuration is opaque, so its
  type is a parameter.
\<close>

record 'c agent =
  agent_id :: string
  cls :: agent_class
  agent_status :: string
  config :: 'c
  error_count :: nat

datatype exn = ValueError string | AgentException string

fun str_exn :: "exn \<Rightarrow> string" where
  "str_exn (ValueError msg) = msg"
| "str_exn (AgentException msg) = msg"

datatype log_entry = LogInfo string | LogWarning string | LogError string

text \<open>
  The recovery protocol distinguishes re-initialising an agent object in place from
  registering a new object, so objects have identity: the registry maps an agent id to a
  reference, \<open>objects\<close> maps a reference to the state of the object, and \<open>next_ref\<close> is the
  first reference not yet handed out.
\<close>

type_synonym ref = nat

record 'c master_agent =
  agents :: "(string \<times> ref) list"
  objects :: "ref \<Rightarrow> 'c agent"
  next_ref :: ref
  logged :: "log_entry list"

definition agent_classes :: "(string \<times> agent_class) list" where
  "agent_classes =
     [(''strategy'', StrategyAgent), (''risk'', RiskManagementAgent),
      (''deployment'', DeploymentAgent), (''backtesting'', BacktestingAgent),
      (''research'', ResearchAgent)]"

text \<open>
  What the agent classes do is outside the sources, so it is a parameter of the model:
  \<open>make_agent c cfg\<close> is the call \<open>c(**cfg)\<close> (the new object's fields, or the exception of a
  constructor that rejects the configuration), and \<open>initialize a\<close> is \<open>await a.initialize()\<close>
  (the object's state after the call, and the exception when the call raised).

  \<open>create_agent_instance\<close> returns the manager with the new object allocated and its
  reference, or the exception.
\<close>

definition create_agent_instance ::
  "(agent_class \<Rightarrow> 'c \<Rightarrow> exn + 'c agent) \<Rightarrow> 'c master_agent \<Rightarrow> string \<Rightarrow> 'c
     \<Rightarrow> exn + ('c master_agent \<times> ref)" where
  "create_agent_instance make_agent ma agent_type cfg =
     (case map_of agent_classes agent_type of
        None \<Rightarrow> Inl (ValueError (''Unknown agent type: '' @ agent_type))
      | Some c \<Rightarrow>
          (case make_agent c cfg of
             Inl e \<Rightarrow> Inl e
           | Inr a \<Rightarrow>
               Inr (ma\<lparr>objects := (objects ma)(next_ref ma := a), next_ref := next_ref ma + 1\<rparr>,
                    next_ref ma)))"

definition log_recovery_failure :: "'c master_agent \<Rightarrow> string \<Rightarrow> exn \<Rightarrow> 'c master_agent" where
  "log_recovery_failure ma aid e =
     ma\<lparr>logged := logged ma @ [LogError (''Failed to recover agent '' @ aid @ '': '' @ str_exn e)]\<rparr>"

text \<open>
  \<open>handle_agent_failure ma aid r\<close>: \<open>r\<close> is the reference passed as \<open>agent\<close>. Every exception
  raised inside the \<open>try\<close> ends in the \<open>except\<close> branch, which logs and returns.
\<close>

definition handle_agent_failure ::
  "(agent_class \<Rightarrow> 'c \<Rightarrow> exn + 'c agent) \<Rightarrow> ('c agent \<Rightarrow> 'c agent \<times> exn option)
     \<Rightarrow> 'c master_agent \<Rightarrow> string \<Rightarrow> ref \<Rightarrow> 'c master_agent" where
  "handle_agent_failure make_agent initialize ma aid r =
     (let ma = ma\<lparr>logged := logged ma @ [LogInfo (''Attempting to recover agent: '' @ aid)]\<rparr>;
          res = initialize (objects ma r);
          ma = ma\<lparr>objects := (objects ma)(r := fst res)\<rparr>
      in case snd res of
           Some e \<Rightarrow> log_recovery_failure ma aid e
         | None \<Rightarrow>
             if agent_status (objects ma r) \<noteq> ''active'' then
               (case create_agent_instance make_agent ma
                       (lower (class_name (cls (objects ma r)))) (config (objects ma r)) of
                  Inl e \<Rightarrow> log_recovery_failure ma aid e
                | Inr (ma, new_agent) \<Rightarrow>
                    (let res = initialize (objects ma new_agent);
                         ma = ma\<lparr>objects := (objects ma)(new_agent := fst res)\<rparr>
                     in case snd res of
                          Some e \<Rightarrow> log_recovery_failure ma aid e
                        | None \<Rightarrow> ma\<lparr>agents := dict_set (agents ma) aid new_agent\<rparr>))
             else ma)"

text \<open>
  The body of one health-check decision of \<open>_run_health_checks\<close>: the registry entries are
  visited in order and recovery runs for each agent whose status is not \<open>"active"\<close>.
  Recovery never changes the number of registry entries, so the iteration is not disturbed.
\<close>

fun health_check_loop ::
  "(agent_class \<Rightarrow> 'c \<Rightarrow> exn + 'c agent) \<Rightarrow> ('c agent \<Rightarrow> 'c agent \<times> exn option)
     \<Rightarrow> 'c master_agent \<Rightarrow> (string \<times> ref) list \<Rightarrow> 'c master_agent" where
  "health_check_loop make_agent initialize ma [] = ma"
| "health_check_loop make_agent initialize ma ((aid, r) # rest) =
     (if agent_status (objects ma r) \<noteq> ''active''
      then health_check_loop make_agent initialize
             (handle_agent_failure make_agent initialize
                (ma\<lparr>logged := logged ma @ [LogWarning (''Agent '' @ aid @ '' is not active. Status: ''
                                                   @ agent_status (objects ma r))]\<rparr>) aid r) rest
      else health_check_loop make_agent initialize ma rest)"

section \<open>States used in the examples\<close>

definition full_manager :: position_manager where
  "full_manager =
     fold (\<lambda>s pm. snd (open_position pm s (Fl 1) (Fl 100) ''long'' None None))
       [''S0'', ''S1'', ''S2'', ''S3'', ''S4'', ''S5'', ''S6'', ''S7'', ''S8'', ''S9'']
       PositionManager_init"

definition near_cap :: position_manager where
  "near_cap =
     snd (open_position PositionManager_init ''A'' (Fl 950) (Fl 100) ''long'' None None)"

definition at_cap :: position_manager where
  "at_cap =
     snd (open_position PositionManager_init ''A'' (Fl 1) (Fl 100000) ''long'' None None)"


definition reopened :: position_manager where
  "reopened =
     snd (open_position
            (snd (open_position PositionManager_init ''A'' (Fl 1) (Fl 100) ''long'' None None))
            ''A'' (Fl 1) (Fl 100) ''long'' None None)"

definition stop_then_plain :: position_manager where
  "stop_then_plain =
     snd (open_position
            (snd (open_position PositionManager_init
                    ''A'' (Fl 1) (Fl 100) ''long'' (Some (Fl 90)) None))
            ''B'' (Fl 1) (Fl 100) ''long'' None None)"

definition zero_stop_short :: position_manager where
  "zero_stop_short =
     snd (open_position PositionManager_init ''Z'' (Fl 1) (Fl 100) ''short'' (Some (Fl 0)) None)"

definition small_monitor :: "nat system_monitor" where
  "small_monitor =
     \<lparr>metrics_history = [1, 2, 3], max_history_size = 3, monitoring = True, loop_tasks = 1\<rparr>"

text \<open>
  A registry with one strategy agent in status \<open>"error"\<close>; an \<open>initialize\<close> that activates a
  newly constructed agent and leaves any other as it is; a constructor that always succeeds.
\<close>

definition failed_strategy :: "unit agent" where
  "failed_strategy =
     \<lparr>agent_id = ''StrategyAgent_20240101_000000'', cls = StrategyAgent,
      agent_status = ''error'', config = (), error_count = 3\<rparr>"

definition one_failed :: "unit master_agent" where
  "one_failed =
     \<lparr>agents = [(''strategy'', 0)], objects = (\<lambda>_. failed_strategy), next_ref = 1,
      logged = []\<rparr>"

definition make_fresh :: "agent_class \<Rightarrow> unit \<Rightarrow> exn + unit agent" where
  "make_fresh c cfg =
     Inr \<lparr>agent_id = class_name c @ ''_20240101_000500'', cls = c,
          agent_status = ''initialized'', config = cfg, error_count = 0\<rparr>"

definition init_fresh_only :: "unit agent \<Rightarrow> unit agent \<times> exn option" where
  "init_fresh_only a =
     (if agent_status a = ''initialized'' then (a\<lparr>agent_status := ''active''\<rparr>, None)
      else (a, None))"

section \<open>Notions used to state the properties\<close>

text \<open>
  The ledger is consistent when its symbols are unique and \<open>total_exposure\<close> is the sum of
  the entry notionals of the open positions.
\<close>

definition exposure_consistent :: "position_manager \<Rightarrow> bool" where
  "exposure_consistent pm \<longleftrightarrow>
     distinct (map fst (positions pm)) \<and> total_exposure pm = exposure_sum (positions pm)"

text \<open>A position, and a ledger, with every exit level of value 0 replaced by no level.\<close>

definition unset_zero_levels :: "position \<Rightarrow> position" where
  "unset_zero_levels p =
     p\<lparr>stop_loss := (if stop_loss p = Some (Fl 0) then None else stop_loss p),
       take_profit := (if take_profit p = Some (Fl 0) then None else take_profit p)\<rparr>"

definition unset_zero_all :: "position_manager \<Rightarrow> position_manager" where
  "unset_zero_all pm = pm\<lparr>positions := map (apsnd unset_zero_levels) (positions pm)\<rparr>"

text \<open>
  What can happen to a monitor: a call of \<open>start_monitoring\<close>, a call of \<open>stop_monitoring\<close>,
  or one of the live loop tasks being scheduled with the snapshot it collects.
\<close>

datatype 'm monitor_event = Start | Stop | LoopStep 'm

fun monitor_apply :: "'m system_monitor \<Rightarrow> 'm monitor_event \<Rightarrow> 'm system_monitor" where
  "monitor_apply m Start = start_monitoring m"
| "monitor_apply m Stop = stop_monitoring m"
| "monitor_apply m (LoopStep x) = (if loop_tasks m = 0 then m else monitor_loop_step m x)"

section \<open>Dictionary facts\<close>

lemma map_of_dict_set: "map_of (dict_set kvs k v) = (map_of kvs)(k \<mapsto> v)"
  by (induction kvs) (auto simp: fun_eq_iff)


lemma dict_set_fresh: "map_of kvs k = None \<Longrightarrow> dict_set kvs k v = kvs @ [(k, v)]"
  by (induction kvs) (auto split: if_splits)

lemma length_dict_set_present:
  "map_of kvs k \<noteq> None \<Longrightarrow> length (dict_set kvs k v) = length kvs"
  by (induction kvs) auto

section \<open>Facts about floats\<close>

lemma round_half_even_of_int: "round_half_even (of_int k) = k"
  by (simp add: round_half_even_def)

lemma not_overflow: "r < 2 ^ 53 \<Longrightarrow> \<not> pow2 1024 \<le> r"
proof -
  assume "r < 2 ^ 53"
  moreover have "(2::rat) ^ 53 \<le> 2 ^ 1024" by (rule power_increasing) simp_all
  ultimately show ?thesis by (simp add: pow2_def)
qed

text \<open>
  \<open>float_exponent\<close> gives the binade of a positive number.
\<close>

lemma float_exponent_bounds:
  assumes "0 < a"
  shows "pow2 (float_exponent a) \<le> a \<and> a < pow2 (float_exponent a + 1)"
proof (cases "1 \<le> a")
  case True
  let ?n = "\<lfloor>a\<rfloor>"
  have n: "0 < ?n" using True by simp
  have k: "1 \<le> bitlen ?n"
    using n bitlen_eq_zero_iff [of ?n] bitlen_nonneg [of ?n] by linarith
  from bitlen_bounds [OF n]
  have lo: "2 ^ nat (bitlen ?n - 1) \<le> ?n" and hi: "?n < 2 ^ nat (bitlen ?n)" by simp_all
  have "rat_of_int (2 ^ nat (bitlen ?n - 1)) \<le> of_int ?n" using lo by (simp only: of_int_le_iff)
  also have "\<dots> \<le> a" by simp
  finally have 1: "pow2 (bitlen ?n - 1) \<le> a" using k by (simp add: pow2_def)
  have "?n + 1 \<le> 2 ^ nat (bitlen ?n)" using hi by simp
  then have E: "rat_of_int (?n + 1) \<le> of_int (2 ^ nat (bitlen ?n))"
    by (simp only: of_int_le_iff)
  have F: "a < of_int (?n + 1)" by linarith
  from F E have "a < rat_of_int (2 ^ nat (bitlen ?n))" by (rule less_le_trans)
  then have 2: "a < pow2 (bitlen ?n)" using k by (simp add: pow2_def)
  show ?thesis using True 1 2 by (simp add: float_exponent_def)
next
  case False
  let ?m = "\<lceil>1 / a\<rceil>"
  have b: "1 < 1 / a" using False assms by simp
  then have m: "0 < ?m - 1" by linarith
  let ?k = "bitlen (?m - 1)"
  have k: "1 \<le> ?k"
    using m bitlen_eq_zero_iff [of "?m - 1"] bitlen_nonneg [of "?m - 1"] by linarith
  from bitlen_bounds [OF m]
  have lo: "2 ^ nat (?k - 1) \<le> ?m - 1" and hi: "?m - 1 < 2 ^ nat ?k" by simp_all
  have "?m \<le> 2 ^ nat ?k" using hi by simp
  then have A: "rat_of_int ?m \<le> of_int (2 ^ nat ?k)" by (simp only: of_int_le_iff)
  have B: "1 / a \<le> of_int ?m" by simp
  from B A have "1 / a \<le> rat_of_int (2 ^ nat ?k)" by (rule order_trans)
  then have "1 / a \<le> 2 ^ nat ?k" by simp
  then have "1 \<le> 2 ^ nat ?k * a" using assms by (simp add: pos_divide_le_eq)
  then have 1: "1 / 2 ^ nat ?k \<le> a" by (simp add: pos_divide_le_eq mult.commute)
  have C: "rat_of_int (2 ^ nat (?k - 1)) \<le> of_int (?m - 1)"
    using lo by (simp only: of_int_le_iff)
  have D: "rat_of_int (?m - 1) < 1 / a" by linarith
  from C D have "rat_of_int (2 ^ nat (?k - 1)) < 1 / a" by (rule le_less_trans)
  then have "2 ^ nat (?k - 1) < 1 / a" by simp
  then have "2 ^ nat (?k - 1) * a < 1" using assms by (simp add: pos_less_divide_eq)
  then have 2: "a < 1 / 2 ^ nat (?k - 1)" by (simp add: pos_less_divide_eq mult.commute)
  have e: "float_exponent a = - ?k" using False by (simp add: float_exponent_def)
  have p1: "pow2 (- ?k) = 1 / 2 ^ nat ?k" using k by (simp add: pow2_def)
  have p2: "pow2 (- ?k + 1) = 1 / 2 ^ nat (?k - 1)"
  proof (cases "?k = 1")
    case True
    then show ?thesis by (simp add: pow2_def)
  next
    case False
    then have "- ?k + 1 < 0" using k by simp
    moreover have "nat (- (- ?k + 1)) = nat (?k - 1)" by simp
    ultimately show ?thesis by (simp add: pow2_def)
  qed
  show ?thesis unfolding e p1 p2 using 1 2 by simp
qed

text \<open>Rounding a positive number, step by step.\<close>

lemma round_double_posI:
  assumes "0 < x" and "float_exponent x = e" and "- 1022 \<le> e"
    and "round_half_even (x / pow2 (e - 52)) = n"
    and "of_int n * pow2 (e - 52) = r" and "r < 2 ^ 53"
  shows "round_double x = Fl r"
proof -
  have "\<bar>x\<bar> = x" "x \<noteq> 0" using assms(1) by simp_all
  moreover have "max (float_exponent x) (- 1022) = e" using assms(2,3) by simp
  moreover have "\<not> pow2 1024 \<le> r" using assms(6) by (rule not_overflow)
  ultimately show ?thesis
    using assms(1,4,5) by (simp add: round_double_def Let_def)
qed

lemma round_double_minus: "round_double (- x) = fneg (round_double x)"
  by (cases "x = 0"; cases "0 < x") (auto simp: round_double_def Let_def)

text \<open>Integers below \<open>2 ^ 53\<close> in magnitude are doubles: rounding leaves them alone.\<close>

lemma float_exponent_int:
  assumes "0 < n"
  shows "float_exponent (of_int n) = bitlen n - 1"
proof -
  have "(1 :: rat) \<le> of_int n" using assms by simp
  then show ?thesis by (simp add: float_exponent_def)
qed

lemma round_double_int:
  assumes "0 < n" and "n < 2 ^ 53"
  shows "round_double (of_int n) = Fl (of_int n)"
proof (rule round_double_posI [where e = "bitlen n - 1" and n = "n * 2 ^ nat (53 - bitlen n)"])
  show "(0 :: rat) < of_int n" using assms by simp
  show "float_exponent (rat_of_int n) = bitlen n - 1"
    using assms(1) by (rule float_exponent_int)
  have b1: "1 \<le> bitlen n"
    using assms(1) bitlen_eq_zero_iff [of n] bitlen_nonneg [of n] by linarith
  have b53: "bitlen n \<le> 53"
  proof (rule ccontr)
    assume "\<not> bitlen n \<le> 53"
    then have "54 \<le> bitlen n" by simp
    then have "(2::int) ^ 53 \<le> 2 ^ nat (bitlen n - 1)" by (intro power_increasing) simp_all
    also have "\<dots> \<le> n" using bitlen_bounds [of n] assms(1) by simp
    finally show False using assms(2) by simp
  qed
  show "- 1022 \<le> bitlen n - 1" using b1 by simp
  have q: "pow2 (bitlen n - 1 - 52) = 1 / 2 ^ nat (53 - bitlen n)"
    using b53 by (auto simp: pow2_def)
  have d: "rat_of_int n / (1 / 2 ^ nat (53 - bitlen n)) = of_int (n * 2 ^ nat (53 - bitlen n))"
    by simp
  show "round_half_even (rat_of_int n / pow2 (bitlen n - 1 - 52)) = n * 2 ^ nat (53 - bitlen n)"
    unfolding q d by (rule round_half_even_of_int)
  show "rat_of_int (n * 2 ^ nat (53 - bitlen n)) * pow2 (bitlen n - 1 - 52) = rat_of_int n"
    unfolding q by simp
  have "rat_of_int n < of_int (2 ^ 53)" using assms(2) by (simp only: of_int_less_iff)
  then show "rat_of_int n < 2 ^ 53" by simp
qed

lemma round_double_zero: "round_double 0 = Fl 0"
  by (simp add: round_double_def)

lemma round_double_one: "round_double 1 = Fl 1"
  using round_double_int [of 1] by simp

lemma round_double_numeral:
  "numeral k < (2 :: int) ^ 53 \<Longrightarrow> round_double (numeral k) = Fl (numeral k)"
  using round_double_int [of "numeral k"] by simp

lemma round_double_neg_numeral:
  "numeral k < (2 :: int) ^ 53 \<Longrightarrow> round_double (- numeral k) = Fl (- numeral k)"
  by (simp add: round_double_minus round_double_numeral)

lemmas float_eval =
  round_double_zero round_double_one round_double_numeral round_double_neg_numeral
  fsub_def fgt_def fge_def fle_def

text \<open>
  \<open>2 ^ - 40\<close> is a double. At 100000 the doubles are \<open>2 ^ - 36\<close> apart, so adding
  \<open>2 ^ - 40\<close> to 100000 rounds back to 100000.
\<close>

lemma round_double_small: "round_double (1 / 2 ^ 40) = Fl (1 / 2 ^ 40)"
proof (rule round_double_posI [where e = "- 40" and n = "2 ^ 52"])
  let ?x = "1 / 2 ^ 40 :: rat"
  show "0 < ?x" by simp
  have c: "\<lceil>1 / ?x\<rceil> - 1 = 1099511627775" by simp
  have b: "bitlen 1099511627775 = 40" by code_simp
  show "float_exponent ?x = - 40" unfolding float_exponent_def c b by simp
  show "- 1022 \<le> (- 40 :: int)" by simp
  have q: "pow2 (- 40 - 52) = 1 / 2 ^ 92" by (simp add: pow2_def)
  have d: "?x / (1 / 2 ^ 92) = of_int (2 ^ 52)" by simp
  show "round_half_even (?x / pow2 (- 40 - 52)) = 2 ^ 52"
    unfolding q d by (rule round_half_even_of_int)
  show "rat_of_int (2 ^ 52) * pow2 (- 40 - 52) = ?x" unfolding q by simp
  show "?x < 2 ^ 53" by simp
qed

lemma round_double_absorbed: "round_double (100000 + 1 / 2 ^ 40) = Fl 100000"
proof (rule round_double_posI [where e = 16 and n = "100000 * 2 ^ 36"])
  let ?x = "100000 + 1 / 2 ^ 40 :: rat"
  show "0 < ?x" by simp
  have fl: "\<lfloor>?x\<rfloor> = 100000" by (rule floor_unique) simp_all
  have b: "bitlen 100000 = 17" by code_simp
  show "float_exponent ?x = 16" using fl b by (simp add: float_exponent_def)
  show "- 1022 \<le> (16 :: int)" by simp
  have q: "pow2 (16 - 52) = 1 / 2 ^ 36" by (simp add: pow2_def)
  have d: "?x / (1 / 2 ^ 36) = of_int (100000 * 2 ^ 36) + 1 / 16" by simp
  have f: "\<lfloor>of_int (100000 * 2 ^ 36) + 1 / 16 :: rat\<rfloor> = 100000 * 2 ^ 36"
    by (rule floor_unique) simp_all
  show "round_half_even (?x / pow2 (16 - 52)) = 100000 * 2 ^ 36"
    unfolding q d round_half_even_def f by (simp add: Let_def)
  show "rat_of_int (100000 * 2 ^ 36) * pow2 (16 - 52) = 100000"
    unfolding q by simp
  show "(100000 :: rat) < 2 ^ 53" by simp
qed

section \<open>Opening positions\<close>

text \<open>
  Claim C2. An \<open>open_position\<close> call made while the number of open positions equals the
  maximum of the manager (10 after construction) returns \<open>False\<close> and leaves the manager,
  that is the position set and \<open>total_exposure\<close>, as it was.
\<close>

theorem open_position_at_max_rejected:
  "length (positions pm) = max_positions pm \<Longrightarrow>
     open_position pm symb sz ep dir sl tp = (False, pm)"
  by (simp add: open_position_def)

text \<open>Ten opens of distinct symbols fill a new manager; the eleventh is rejected.\<close>

lemma full_manager_value:
  "full_manager =
     \<lparr>positions =
        map (\<lambda>s. (s, Position_init s (Fl 1) (Fl 100) ''long'' None None))
          [''S0'', ''S1'', ''S2'', ''S3'', ''S4'', ''S5'', ''S6'', ''S7'', ''S8'', ''S9''],
      max_positions = 10, total_exposure = Fl 1000, max_exposure = Fl 100000\<rparr>"
  by (simp add: full_manager_def open_position_def PositionManager_init_def Position_init_def
        Let_def float_eval)

theorem open_position_at_max_rejected_witness:
  "length (positions full_manager) = 10 \<and> max_positions full_manager = 10 \<and>
   open_position full_manager ''S10'' (Fl 1) (Fl 100) ''long'' None None = (False, full_manager)"
proof -
  have full: "length (positions full_manager) = 10" "max_positions full_manager = 10"
    by (simp_all add: full_manager_value)
  then show ?thesis
    using open_position_at_max_rejected
            [of full_manager "''S10''" "Fl 1" "Fl 100" "''long''" None None]
    by simp
qed

text \<open>
  Claim C3, as the code has it. The exposure test and the exposure update are float
  operations. An \<open>open_position\<close> call is rejected, with the manager unchanged, when the
  float sum of \<open>total_exposure\<close> and the float product \<open>size * entry_price\<close> compares greater
  than \<open>max_exposure\<close> (100000 after construction). When the count is below the maximum and
  that float sum does not compare greater than the cap, the call returns \<open>True\<close>, stores the
  new position under its symbol and sets \<open>total_exposure\<close> to that float sum; this is the
  exact sum whenever the product and the sum are doubles, so that neither operation rounds.
\<close>

theorem open_position_limits:
  "(fgt (fadd (total_exposure pm) (fmul sz ep)) (max_exposure pm) \<longrightarrow>
      open_position pm symb sz ep dir sl tp = (False, pm)) \<and>
   (length (positions pm) < max_positions pm \<and>
    \<not> fgt (fadd (total_exposure pm) (fmul sz ep)) (max_exposure pm) \<longrightarrow>
      open_position pm symb sz ep dir sl tp =
        (True, pm\<lparr>positions := dict_set (positions pm) symb (Position_init symb sz ep dir sl tp),
                  total_exposure := fadd (total_exposure pm) (fmul sz ep)\<rparr>) \<and>
      map_of (positions (snd (open_position pm symb sz ep dir sl tp))) symb =
        Some (Position_init symb sz ep dir sl tp)) \<and>
   (\<forall>t s e. total_exposure pm = Fl t \<and> sz = Fl s \<and> ep = Fl e \<and>
      round_double (s * e) = Fl (s * e) \<and> round_double (t + s * e) = Fl (t + s * e) \<longrightarrow>
      fadd (total_exposure pm) (fmul sz ep) = Fl (t + s * e))"
  by (simp add: open_position_def Let_def map_of_dict_set)

text \<open>
  With 95000 committed, a notional of 10000 is rejected and a notional of 5000 is accepted
  and brings the exposure to exactly 100000.
\<close>

theorem open_position_limits_witness:
  "total_exposure near_cap = Fl 95000 \<and> max_exposure near_cap = Fl 100000 \<and>
   open_position near_cap ''B'' (Fl 100) (Fl 100) ''long'' None None = (False, near_cap) \<and>
   open_position near_cap ''B'' (Fl 50) (Fl 100) ''short'' (Some (Fl 110)) None =
     (True,
      near_cap\<lparr>positions :=
                 positions near_cap
                 @ [(''B'', Position_init ''B'' (Fl 50) (Fl 100) ''short'' (Some (Fl 110)) None)],
               total_exposure := Fl 100000\<rparr>) \<and>
   fadd (total_exposure near_cap) (fmul (Fl 50) (Fl 100)) = Fl (95000 + 50 * 100)"
  using open_position_limits [of near_cap "Fl 100" "Fl 100" "''B''" "''long''" None None]
        open_position_limits
          [of near_cap "Fl 50" "Fl 100" "''B''" "''short''" "Some (Fl 110)" None]
  by (simp add: near_cap_def open_position_def PositionManager_init_def Position_init_def
        Let_def float_eval)

text \<open>
  The claim as it was stated, with the exact sum, fails. After one position of notional
  100000 the exposure is at the cap. A further open of size \<open>2 ^ - 40\<close> at price 1 has a
  positive notional, so the exact sum is above the cap; the float sum rounds back to 100000,
  which is not greater than the cap. The call returns \<open>True\<close>, the position is stored, and
  \<open>total_exposure\<close> stays 100000 instead of growing by the notional.
\<close>

theorem open_position_rounding_counterexample:
  "total_exposure at_cap = Fl 100000 \<and> max_exposure at_cap = Fl 100000 \<and>
   length (positions at_cap) = 1 \<and> max_positions at_cap = 10 \<and>
   (100000 :: rat) + 1 / 2 ^ 40 * 1 > 100000 \<and>
   open_position at_cap ''B'' (Fl (1 / 2 ^ 40)) (Fl 1) ''long'' None None =
     (True,
      at_cap\<lparr>positions :=
               positions at_cap
               @ [(''B'', Position_init ''B'' (Fl (1 / 2 ^ 40)) (Fl 1) ''long'' None None)],
             total_exposure := Fl 100000\<rparr>) \<and>
   total_exposure
     (snd (open_position at_cap ''B'' (Fl (1 / 2 ^ 40)) (Fl 1) ''long'' None None))
     \<noteq> Fl (100000 + 1 / 2 ^ 40 * 1)"
proof -
  have small: "round_double (1 / 1099511627776) = Fl (1 / 1099511627776)"
    using round_double_small by simp
  have absorbed: "round_double (109951162777600001 / 1099511627776) = Fl 100000"
    using round_double_absorbed by simp
  show ?thesis
    by (simp add: at_cap_def open_position_def PositionManager_init_def Position_init_def
          Let_def float_eval small absorbed)
qed

section \<open>Closing positions\<close>



section \<open>The exposure invariant\<close>

lemma exposure_sum_dict_set_fresh:
  "map_of ps k = None \<Longrightarrow>
     exposure_sum (dict_set ps k p) = fadd (exposure_sum ps) (fmul (size_p p) (entry_price p))"
  by (simp add: dict_set_fresh exposure_sum_def)

text \<open>Opening a symbol that has no open position keeps the ledger consistent.\<close>

lemma open_fresh_consistent:
  "exposure_consistent pm \<Longrightarrow> map_of (positions pm) symb = None \<Longrightarrow>
     exposure_consistent (snd (open_position pm symb sz ep dir sl tp))"
  by (auto simp: open_position_def exposure_consistent_def Let_def dict_set_fresh
        exposure_sum_def Position_init_def map_of_eq_None_iff)

text \<open>
  Claim C1. \<open>total_exposure\<close> should equal the sum of \<open>size * entry_price\<close> over the open
  positions after every call. Opening the symbol A twice, 1 at 100 each time, succeeds
  twice: the second call overwrites the entry of A and adds its notional without taking the
  old one off, so one position of notional 100 is open while \<open>total_exposure\<close> is 200.
\<close>

theorem reopen_same_symbol_exposure_drift:
  "fst (open_position PositionManager_init ''A'' (Fl 1) (Fl 100) ''long'' None None) \<and>
   fst (open_position
          (snd (open_position PositionManager_init ''A'' (Fl 1) (Fl 100) ''long'' None None))
          ''A'' (Fl 1) (Fl 100) ''long'' None None) \<and>
   positions reopened = [(''A'', Position_init ''A'' (Fl 1) (Fl 100) ''long'' None None)] \<and>
   exposure_sum (positions reopened) = Fl 100 \<and>
   total_exposure reopened = Fl 200"
  by (simp add: reopened_def open_position_def PositionManager_init_def exposure_sum_def
        Position_init_def Let_def float_eval)

section \<open>Price updates\<close>

lemma exit_check_unconfigured:
  "stop_loss p = None \<Longrightarrow> take_profit p = None \<Longrightarrow> exit_check p price = None"
  by (simp add: exit_check_def truthy_def)

lemma exit_check_stop_loss_first:
  "truthy (stop_loss p) \<Longrightarrow> direction p = ''long'' \<Longrightarrow> fle price (the (stop_loss p)) \<Longrightarrow>
     exit_check p price = Some StopLossLong"
  by (simp add: exit_check_def)

text \<open>
  Claim C4. \<open>update_positions\<close> should recompute the pnl of every open position that has a
  price in the map. With A (long, stop-loss 90) opened before B (long, no levels) and the
  prices A = 80, B = 120, the loop closes A, and the request for the next item raises
  \<open>RuntimeError\<close> because the dictionary has shrunk: B is never visited and its pnl stays 0,
  where the price 120 gives 20.
\<close>

theorem update_positions_aborts_after_close:
  "update_positions stop_then_plain [''A'' \<mapsto> Fl 80, ''B'' \<mapsto> Fl 120] =
     (RuntimeError,
      \<lparr>positions = [(''B'', Position_init ''B'' (Fl 1) (Fl 100) ''long'' None None)],
       max_positions = 10, total_exposure = Fl 100, max_exposure = Fl 100000\<rparr>) \<and>
   pnl (Position_init ''B'' (Fl 1) (Fl 100) ''long'' None None) = Fl 0 \<and>
   pnl (position_update (Position_init ''B'' (Fl 1) (Fl 100) ''long'' None None) (Fl 120))
     = Fl 20"
  by (simp add: update_positions_def stop_then_plain_def open_position_def
        PositionManager_init_def Position_init_def position_update_def exit_check_def
        truthy_def close_position_def dict_del_def Let_def float_eval)

subsection \<open>Exit levels of value 0\<close>

lemma exit_check_unset_zero: "exit_check (unset_zero_levels p) price = exit_check p price"
  by (cases "stop_loss p = Some (Fl 0)"; cases "take_profit p = Some (Fl 0)")
     (simp_all add: exit_check_def unset_zero_levels_def truthy_def)

lemma position_update_unset_zero:
  "position_update (unset_zero_levels p) x = unset_zero_levels (position_update p x)"
  by (simp add: position_update_def unset_zero_levels_def Let_def)

lemma dict_set_map: "map (apsnd f) (dict_set kvs k v) = dict_set (map (apsnd f) kvs) k (f v)"
  by (induction kvs) auto

lemma dict_del_map: "map (apsnd f) (dict_del kvs k) = dict_del (map (apsnd f) kvs) k"
  by (induction kvs) (auto simp: dict_del_def)

lemma map_of_map_apsnd: "map_of (map (apsnd f) kvs) k = map_option f (map_of kvs k)"
  by (induction kvs) auto

lemma close_position_unset_zero:
  "fst (snd (close_position (unset_zero_all pm) s x)) =
     unset_zero_all (fst (snd (close_position pm s x)))"
  by (cases "map_of (positions pm) s")
     (simp_all add: close_position_def unset_zero_all_def map_of_map_apsnd dict_del_map Let_def
        position_update_def unset_zero_levels_def)

lemma unset_zero_all_dict_set:
  "unset_zero_all (pm\<lparr>positions := dict_set (positions pm) s p\<rparr>) =
   (unset_zero_all pm)
     \<lparr>positions := dict_set (positions (unset_zero_all pm)) s (unset_zero_levels p)\<rparr>"
  by (simp add: unset_zero_all_def dict_set_map)

lemma length_unset_zero_all: "length (positions (unset_zero_all pm)) = length (positions pm)"
  by (simp add: unset_zero_all_def)

lemma update_loop_unset_zero:
  "update_loop n (unset_zero_all pm) (map (apsnd unset_zero_levels) items) prices =
     apsnd unset_zero_all (update_loop n pm items prices)"
proof (induction items arbitrary: pm)
  case Nil
  show ?case by (simp add: length_unset_zero_all)
next
  case (Cons kv items)
  obtain s p where kv: "kv = (s, p)" by (cases kv)
  show ?case
  proof (cases "prices s")
    case None
    then show ?thesis using Cons.IH [of pm] by (simp add: kv length_unset_zero_all)
  next
    case (Some price)
    let ?pm1 = "pm\<lparr>positions := dict_set (positions pm) s (position_update p price)\<rparr>"
    have a: "(unset_zero_all pm)\<lparr>positions := dict_set (positions (unset_zero_all pm)) s
                (unset_zero_levels (position_update p price))\<rparr> = unset_zero_all ?pm1"
      by (simp add: unset_zero_all_dict_set)
    show ?thesis
      using Cons.IH [of ?pm1] Cons.IH [of "fst (snd (close_position ?pm1 s price))"]
      by (simp add: kv Some length_unset_zero_all Let_def a close_position_unset_zero
            position_update_unset_zero exit_check_unset_zero)
  qed
qed

text \<open>
  Claim C10. A stop-loss or take-profit of value 0 is treated by \<open>update_positions\<close> as a
  level that is not configured: the exit check of a position with the level 0 is the exit
  check of the same position without the level, it never takes a branch of that level, and
  a whole update on a ledger gives the same outcome and the same ledger, up to the zero
  levels themselves, as on the ledger with every zero level removed.
\<close>

theorem zero_level_treated_as_unset:
  "exit_check (p\<lparr>stop_loss := Some (Fl 0)\<rparr>) price
     = exit_check (p\<lparr>stop_loss := None\<rparr>) price \<and>
   exit_check (p\<lparr>take_profit := Some (Fl 0)\<rparr>) price
     = exit_check (p\<lparr>take_profit := None\<rparr>) price \<and>
   exit_check (p\<lparr>stop_loss := Some (Fl 0)\<rparr>) price
     \<notin> {Some StopLossLong, Some StopLossShort} \<and>
   exit_check (p\<lparr>take_profit := Some (Fl 0)\<rparr>) price
     \<notin> {Some TakeProfitLong, Some TakeProfitShort} \<and>
   update_positions (unset_zero_all pm) prices = apsnd unset_zero_all (update_positions pm prices)"
  using update_loop_unset_zero [of "length (positions pm)" pm "positions pm" prices]
  by (simp add: exit_check_def truthy_def update_positions_def length_unset_zero_all)
     (simp add: unset_zero_all_def)

text \<open>
  A short position with stop-loss 0 and the price 50: a stop-loss of 0 that was evaluated
  would be breached (50 is above it); the position stays open with its pnl updated.
\<close>

theorem zero_level_treated_as_unset_witness:
  "exit_check (Position_init ''Z'' (Fl 1) (Fl 100) ''short'' (Some (Fl 0)) None) (Fl 50) = None \<and>
   update_positions zero_stop_short [''Z'' \<mapsto> Fl 50] =
     (Returned,
      zero_stop_short
        \<lparr>positions :=
           [(''Z'', (Position_init ''Z'' (Fl 1) (Fl 100) ''short'' (Some (Fl 0)) None)
                      \<lparr>pnl := Fl 50\<rparr>)]\<rparr>)"
  using zero_level_treated_as_unset
          [of "Position_init ''Z'' (Fl 1) (Fl 100) ''short'' (Some (Fl 0)) None" "Fl 50"
              zero_stop_short "[''Z'' \<mapsto> Fl 50]"]
  by (simp add: update_positions_def zero_stop_short_def open_position_def
        PositionManager_init_def Position_init_def position_update_def exit_check_def
        truthy_def Let_def float_eval)

section \<open>The metrics history\<close>

lemma max_history_size_store [simp]:
  "max_history_size (store_metrics m x) = max_history_size m"
  by (simp add: store_metrics_def Let_def)

lemma max_history_size_apply [simp]:
  "max_history_size (monitor_apply m e) = max_history_size m"
  by (cases e) (simp_all add: start_monitoring_def stop_monitoring_def monitor_loop_step_def Let_def)

lemma length_store_metrics:
  "length (metrics_history m) \<le> max_history_size m \<Longrightarrow>
     length (metrics_history (store_metrics m x)) \<le> max_history_size m"
  by (simp add: store_metrics_def Let_def)

lemma length_monitor_apply:
  "length (metrics_history m) \<le> max_history_size m \<Longrightarrow>
     length (metrics_history (monitor_apply m e)) \<le> max_history_size m"
  by (cases e)
     (simp_all add: start_monitoring_def stop_monitoring_def monitor_loop_step_def Let_def
        length_store_metrics)

lemma length_monitor_run:
  "length (metrics_history m) \<le> max_history_size m \<Longrightarrow>
     length (metrics_history (foldl monitor_apply m es)) \<le> max_history_size m"
proof (induction es arbitrary: m)
  case Nil
  then show ?case by simp
next
  case (Cons e es)
  have "length (metrics_history (monitor_apply m e)) \<le> max_history_size (monitor_apply m e)"
    using Cons.prems by (simp add: length_monitor_apply)
  from Cons.IH [OF this] show ?case by simp
qed

lemma max_history_size_run [simp]:
  "max_history_size (foldl monitor_apply m es) = max_history_size m"
  by (induction es arbitrary: m) simp_all

text \<open>
  Every state reached from a new monitor has the capacity 1000 and a history within it, so
  the hypotheses of the next theorem hold in each of them.
\<close>

lemma reachable_monitor_within_capacity:
  "max_history_size (foldl monitor_apply SystemMonitor_init es) = 1000 \<and>
   length (metrics_history (foldl monitor_apply SystemMonitor_init es)) \<le> 1000"
  using length_monitor_run [of SystemMonitor_init es]
  by (simp add: SystemMonitor_init_def)

text \<open>
  Claim C8. With a positive capacity and a history within it, the history stays within the
  capacity however starts, stops and loop passes follow each other. A sampling tick is a
  pass of a live loop task while the monitoring flag is set: after it the history is within
  the capacity and the new snapshot is its last entry; on a full history the tick drops
  exactly the oldest entry, and on a history that is not full it drops nothing.
\<close>

theorem metrics_history_bounded_fifo:
  "0 < max_history_size m \<Longrightarrow> length (metrics_history m) \<le> max_history_size m \<Longrightarrow>
     length (metrics_history (foldl monitor_apply m es)) \<le> max_history_size m \<and>
     (monitoring m \<and> 0 < loop_tasks m \<longrightarrow>
        length (metrics_history (monitor_apply m (LoopStep x))) \<le> max_history_size m \<and>
        last (metrics_history (monitor_apply m (LoopStep x))) = x \<and>
        (length (metrics_history m) = max_history_size m \<longrightarrow>
           metrics_history (monitor_apply m (LoopStep x)) = tl (metrics_history m) @ [x]) \<and>
        (length (metrics_history m) < max_history_size m \<longrightarrow>
           metrics_history (monitor_apply m (LoopStep x)) = metrics_history m @ [x]))"
proof (intro conjI impI)
  assume pos: "0 < max_history_size m" and le: "length (metrics_history m) \<le> max_history_size m"
  show "length (metrics_history (foldl monitor_apply m es)) \<le> max_history_size m"
    using le by (rule length_monitor_run)
  assume "monitoring m \<and> 0 < loop_tasks m"
  then have tick: "monitor_apply m (LoopStep x) = store_metrics m x"
    by (simp add: monitor_loop_step_def)
  show "length (metrics_history (monitor_apply m (LoopStep x))) \<le> max_history_size m"
    unfolding tick using le by (rule length_store_metrics)
  show "last (metrics_history (monitor_apply m (LoopStep x))) = x"
  proof (cases "metrics_history m")
    case Nil
    then show ?thesis unfolding tick using pos by (simp add: store_metrics_def Let_def)
  next
    case (Cons y ys)
    then show ?thesis unfolding tick by (simp add: store_metrics_def Let_def)
  qed
  {
    assume "length (metrics_history m) = max_history_size m"
    then show "metrics_history (monitor_apply m (LoopStep x)) = tl (metrics_history m) @ [x]"
      unfolding tick using pos by (cases "metrics_history m") (auto simp: store_metrics_def Let_def)
  }
  {
    assume "length (metrics_history m) < max_history_size m"
    then show "metrics_history (monitor_apply m (LoopStep x)) = metrics_history m @ [x]"
      unfolding tick by (simp add: store_metrics_def Let_def)
  }
qed

text \<open>
  A full history of capacity 3 with the flag set and one live loop task: the tick with
  snapshot 4 turns 1, 2, 3 into 2, 3, 4.
\<close>

theorem metrics_history_bounded_fifo_witness:
  "0 < max_history_size small_monitor \<and>
   length (metrics_history small_monitor) = max_history_size small_monitor \<and>
   monitoring small_monitor \<and> 0 < loop_tasks small_monitor \<and>
   metrics_history (monitor_apply small_monitor (LoopStep 4)) = [2, 3, 4] \<and>
   last (metrics_history (monitor_apply small_monitor (LoopStep 4))) = 4 \<and>
   length (metrics_history
             (foldl monitor_apply small_monitor [LoopStep 4, Stop, Start, LoopStep 5])) \<le> 3"
  using metrics_history_bounded_fifo [of small_monitor "[LoopStep 4, Stop, Start, LoopStep 5]" 4]
  by (simp add: small_monitor_def store_metrics_def monitor_loop_step_def)

section \<open>Starting the monitor\<close>

lemma loop_tasks_start_pow: "loop_tasks ((start_monitoring ^^ n) m) = loop_tasks m + n"
  by (induction n) (simp_all add: start_monitoring_def)

text \<open>
  Claim C7, as the code has it. \<open>start_monitoring\<close> has no guard: every call sets the flag
  and schedules one more loop task, whether or not monitoring is already running, and leaves
  the history alone. After \<open>n\<close> calls there are \<open>n\<close> more loop tasks, and a task that is
  scheduled while the flag is set keeps running.
\<close>

theorem start_monitoring_spawns_every_time:
  "monitoring (start_monitoring m) \<and>
   loop_tasks (start_monitoring m) = loop_tasks m + 1 \<and>
   metrics_history (start_monitoring m) = metrics_history m \<and>
   loop_tasks ((start_monitoring ^^ n) m) = loop_tasks m + n \<and>
   loop_tasks (monitor_loop_step (start_monitoring m) x) = loop_tasks m + 1"
  by (simp add: loop_tasks_start_pow)
     (simp add: start_monitoring_def monitor_loop_step_def store_metrics_def Let_def)

text \<open>
  Two calls on a new monitor: after the first, monitoring runs with one loop task; the
  second call adds a second task.
\<close>

theorem second_start_spawns_second_loop:
  "monitoring (start_monitoring (SystemMonitor_init :: nat system_monitor)) \<and>
   loop_tasks (start_monitoring (SystemMonitor_init :: nat system_monitor)) = 1 \<and>
   loop_tasks (start_monitoring (start_monitoring (SystemMonitor_init :: nat system_monitor)))
     = 2 \<and>
   \<not> (loop_tasks (start_monitoring (start_monitoring (SystemMonitor_init :: nat system_monitor)))
        = loop_tasks (start_monitoring (SystemMonitor_init :: nat system_monitor)))"
  by (simp add: start_monitoring_def SystemMonitor_init_def)

section \<open>The Sharpe ratio\<close>

text \<open>
  Claim C9. On a list of fewer than two returns \<open>calculate_sharpe_ratio\<close> gives exactly 0,
  whatever the values and the risk-free rate.
\<close>

theorem sharpe_ratio_short_series:
  "length returns < 2 \<Longrightarrow> calculate_sharpe_ratio returns risk_free_rate = Num 0"
  by (simp add: calculate_sharpe_ratio_def)

theorem sharpe_ratio_short_series_witness:
  "length [5 :: real] < 2 \<and> calculate_sharpe_ratio [5] (2 / 100) = Num 0 \<and>
   length ([] :: real list) < 2 \<and> calculate_sharpe_ratio [] (2 / 100) = Num 0"
  using sharpe_ratio_short_series [of "[5]" "2 / 100"]
        sharpe_ratio_short_series [of "[]" "2 / 100"]
  by simp

section \<open>Agent recovery\<close>

text \<open>
  \<open>handle_agent_failure\<close> looks the replacement class up under the lower-cased class name.
  The keys of \<open>agent_classes\<close> are the short type names, so the lookup fails for each of the
  five classes and \<open>create_agent_instance\<close> raises \<open>ValueError\<close>.
\<close>

lemma lower_class_name_unknown: "map_of agent_classes (lower (class_name c)) = None"
  by (cases c) (simp_all add: agent_classes_def lower_def lower_char_def)

lemma create_after_failure_raises:
  "create_agent_instance make_agent ma (lower (class_name c)) cfg =
     Inl (ValueError (''Unknown agent type: '' @ lower (class_name c)))"
  by (simp add: create_agent_instance_def lower_class_name_unknown)

text \<open>
  So, whatever the constructors and \<open>initialize\<close> do, recovery never registers another
  object and never allocates one.
\<close>

lemma handle_agent_failure_never_replaces:
  "agents (handle_agent_failure make_agent initialize ma aid r) = agents ma \<and>
   next_ref (handle_agent_failure make_agent initialize ma aid r) = next_ref ma"
  by (simp add: handle_agent_failure_def Let_def create_after_failure_raises
        log_recovery_failure_def split: option.splits)

text \<open>The same holds for a whole health-check pass over the registry.\<close>

lemma health_check_loop_keeps_registry:
  "agents (health_check_loop make_agent initialize ma items) = agents ma \<and>
   next_ref (health_check_loop make_agent initialize ma items) = next_ref ma"
proof (induction items arbitrary: ma)
  case Nil
  show ?case by simp
next
  case (Cons kv items)
  obtain aid r where kv: "kv = (aid, r)" by (cases kv)
  show ?case
    by (simp add: kv Cons.IH handle_agent_failure_never_replaces)
qed

lemma lower_StrategyAgent: "lower (class_name StrategyAgent) = ''strategyagent''"
  by code_simp

text \<open>
  Claim C6. When the status is still not \<open>"active"\<close> after the in-place \<open>initialize\<close>, recovery
  should construct a new instance of the same type, initialize it and put it in the
  registry. For a strategy agent in status \<open>"error"\<close> whose \<open>initialize\<close> returns without
  changing the status, with a constructor that would succeed and an \<open>initialize\<close> that would
  activate the new object, the code asks for the type \<open>"strategyagent"\<close>, gets \<open>ValueError\<close>,
  logs the failure and leaves the old object, still in status \<open>"error"\<close>, in the registry;
  no object is allocated.
\<close>

theorem recovery_never_builds_replacement:
  "agent_status (objects one_failed 0) = ''error'' \<and>
   agents (handle_agent_failure make_fresh init_fresh_only one_failed ''strategy'' 0)
     = [(''strategy'', 0)] \<and>
   next_ref (handle_agent_failure make_fresh init_fresh_only one_failed ''strategy'' 0) = 1 \<and>
   agent_status
     (objects (handle_agent_failure make_fresh init_fresh_only one_failed ''strategy'' 0) 0)
     = ''error'' \<and>
   logged (handle_agent_failure make_fresh init_fresh_only one_failed ''strategy'' 0)
     = [LogInfo ''Attempting to recover agent: strategy'',
        LogError ''Failed to recover agent strategy: Unknown agent type: strategyagent'']"
  by (simp add: handle_agent_failure_def one_failed_def failed_strategy_def init_fresh_only_def
        create_agent_instance_def agent_classes_def lower_StrategyAgent
        log_recovery_failure_def Let_def del: class_name.simps)

end
